theory Spec2Isabelle
  imports Main "HOL-Library.Sublist"
begin

section \<open>Dates\<close>

text \<open>
  A JavaScript \<^verbatim>\<open>Date\<close> is carried by its time value: the number of milliseconds since
  1970-01-01T00:00:00Z, an integer of at most 8.64e15 in absolute value, or no number for
  an Invalid Date. The relational operators \<^verbatim>\<open><=\<close> and \<^verbatim>\<open><\<close> on two dates compare the time
  values, and a comparison with an Invalid Date is false. The date schemas reject an
  Invalid Date, so every date of a submission is a time value (\<open>date\<close>,
  \<open>valid_time\<close>). A date that date-fns computes can be invalid and is a
  \<open>date option\<close>, \<open>None\<close> for the Invalid Date: \<^verbatim>\<open>TimeClip\<close> of ECMAScript gives no time
  value to a number beyond the range. What is proved below of a date is proved of every
  integer, so of every time value.
\<close>

type_synonym date = int

definition msPerDay :: int where
  "msPerDay = 24 * 60 * 60 * 1000"

definition maxTime :: int where
  "maxTime = 8640000000000000"

definition valid_time :: "int \<Rightarrow> bool" where
  "valid_time t \<longleftrightarrow> \<bar>t\<bar> \<le> maxTime"

definition TimeClip :: "int \<Rightarrow> date option" where
  "TimeClip t = (if \<bar>t\<bar> > maxTime then None else Some t)"

text \<open>
  The time zone of the server's process is an input of the date functions. It is given as
  ECMAScript gives it: \<^verbatim>\<open>LocalTZA(t, isUTC)\<close>, the offset of local time from UTC in
  milliseconds, at the UTC time value \<open>t\<close> when \<open>isUTC\<close> is true and at the local time
  value \<open>t\<close> otherwise. \<^verbatim>\<open>LocalTime\<close> and \<^verbatim>\<open>UTC\<close> are the two conversions of ECMAScript.
\<close>

type_synonym zone = "int \<Rightarrow> bool \<Rightarrow> int"

definition LocalTime :: "zone \<Rightarrow> int \<Rightarrow> int" where
  "LocalTime tza t = t + tza t True"

definition UTC :: "zone \<Rightarrow> int \<Rightarrow> int" where
  "UTC tza t = t - tza t False"

definition Day :: "int \<Rightarrow> int" where
  "Day t = t div msPerDay"

definition TimeWithinDay :: "int \<Rightarrow> int" where
  "TimeWithinDay t = t mod msPerDay"

definition MakeDate :: "int \<Rightarrow> int \<Rightarrow> int" where
  "MakeDate day time = day * msPerDay + time"

text \<open>
  \<^verbatim>\<open>addDays(date, amount)\<close> of date-fns returns the date for the amount 0 and otherwise
  calls \<^verbatim>\<open>date.setDate(date.getDate() + amount)\<close>. \<^verbatim>\<open>setDate\<close> works on the local time \<open>t\<close>
  of the date: it keeps the time within the day, takes for the day
  \<^verbatim>\<open>MakeDay(YearFromTime(t), MonthFromTime(t), dt)\<close>, converts back to UTC and clips.
  \<^verbatim>\<open>MakeDay\<close> counts \<open>dt - 1\<close> days from the first day of the month; with \<open>dt\<close> the day of
  the month of \<open>t\<close> plus the amount, that is the day of \<open>t\<close> plus the amount.
\<close>

definition addDays :: "zone \<Rightarrow> date \<Rightarrow> int \<Rightarrow> date option" where
  "addDays tza d amount =
     (if amount = 0 then Some d
      else
        (let t = LocalTime tza d;
             newDate = MakeDate (Day t + amount) (TimeWithinDay t)
         in TimeClip (UTC tza newDate)))"

text \<open>
  \<^verbatim>\<open>add(date, { days: n })\<close> of date-fns: \<^verbatim>\<open>addDays\<close> when \<open>n\<close> is not 0, then
  \<^verbatim>\<open>new Date(dateWithDays.getTime() + 0)\<close>, which clips again.
\<close>

definition add_days :: "zone \<Rightarrow> date \<Rightarrow> int \<Rightarrow> date option" where
  "add_days tza d n =
     (case (if n \<noteq> 0 then addDays tza d n else Some d) of
        None \<Rightarrow> None
      | Some u \<Rightarrow> TimeClip u)"

text \<open>
  \<^verbatim>\<open>addMinutes(date, amount)\<close> of date-fns, for a whole number of minutes:
  \<^verbatim>\<open>new Date(timestamp + amount * 60000)\<close>.
\<close>

definition addMinutes :: "date \<Rightarrow> int \<Rightarrow> date option" where
  "addMinutes d amount = TimeClip (d + amount * 60000)"

text \<open>
  The words of the specification. One day after an instant is the same local time of
  day on the next calendar day of the server's zone; the calendar day of an instant is
  the day of its local time.
\<close>

definition one_day_after :: "zone \<Rightarrow> date \<Rightarrow> int" where
  "one_day_after tza E = UTC tza (LocalTime tza E + msPerDay)"

definition calendar_day :: "zone \<Rightarrow> date \<Rightarrow> int" where
  "calendar_day tza t = LocalTime tza t div msPerDay"

definition same_calendar_day :: "zone \<Rightarrow> date \<Rightarrow> date \<Rightarrow> bool" where
  "same_calendar_day tza t u \<longleftrightarrow> calendar_day tza t = calendar_day tza u"

text \<open>
  Two zones. \<open>utc_zone\<close> is UTC. \<open>new_york_2024\<close> is New York for dates of 2024: five
  hours behind UTC, and four hours behind from 2024-03-10T07:00Z (02:00 local time
  becomes 03:00) until 2024-11-03T06:00Z (02:00 local time becomes 01:00). A local time
  of the skipped hour is read with the offset before the change and a local time of the
  repeated hour as its first occurrence, as ECMAScript asks.
\<close>

definition utc_zone :: zone where
  "utc_zone t isUTC = 0"

definition new_york_2024 :: zone where
  "new_york_2024 t isUTC =
     (if isUTC
      then (if 1710054000000 \<le> t \<and> t < 1730613600000 then - 14400000 else - 18000000)
      else (if 1710039600000 \<le> t \<and> t < 1730599200000 then - 14400000 else - 18000000))"

section \<open>The submitted form: \<^verbatim>\<open>editEventSchema\<close>\<close>

text \<open>
  Modelled from the spec: \<^verbatim>\<open>optionalDateSchema\<close>, the schema of the two cooldown fields of
  \<^verbatim>\<open>horseSchema\<close>, is declared in \<^verbatim>\<open>~/utils/zod-extensions.ts\<close>, which is not among the
  sources. The data model of the specification gives a horse an optional
  \<^verbatim>\<open>cooldownStartDate\<close> and an optional \<^verbatim>\<open>cooldownEndDate\<close>, so each field is a date or
  absent. An absent field is falsy in the test
  \<^verbatim>\<open>horse.cooldownStartDate && horse.cooldownEndDate\<close>; a date object is truthy whatever
  its time value.
\<close>

record horse =
  horse_id :: string
  name :: string
  cooldownStartDate :: "date option"
  cooldownEndDate :: "date option"

text \<open>\<^verbatim>\<open>instructorSchema\<close> (the object; the schema makes it optional).\<close>

record instructor_ref =
  instructor_id :: string
  instructor_name :: string
  username :: string

text \<open>
  The value of a submission that passed \<^verbatim>\<open>editEventSchema\<close>. The numbers of the form are
  whole (the duration is chosen among 30, 60, 90 and 120 minutes, and date-fns truncates
  the amount it adds).
\<close>

record edit_event =
  title :: string
  startDate :: date
  duration :: int
  horses :: "horse list option"
  instructor :: "instructor_ref option"
  cleaningCrewReq :: int
  lessonAssistantsReq :: int
  sideWalkersReq :: int
  horseLeadersReq :: int
  isPrivate :: bool

section \<open>The cooldown check\<close>

text \<open>
  Lines 271 to 278 of \<^verbatim>\<open>action\<close>, in the time zone \<open>tza\<close> of the process:
  \<^verbatim>\<open>
  const errorHorses = selectedHorsesArray.filter(horse => {
    if (horse.cooldownStartDate && horse.cooldownEndDate) {
      return (
        horse.cooldownStartDate <= start &&
        start < add(horse.cooldownEndDate, { days: 1 })
      )
    } else return false
  })
  \<close>
\<close>

definition errorHorses :: "zone \<Rightarrow> date \<Rightarrow> horse list \<Rightarrow> horse list" where
  "errorHorses tza start selectedHorsesArray =
     filter
       (\<lambda>horse.
          case cooldownStartDate horse of
            None \<Rightarrow> False
          | Some s \<Rightarrow>
              (case cooldownEndDate horse of
                 None \<Rightarrow> False
               | Some e \<Rightarrow>
                   s \<le> start \<and>
                   (case add_days tza e 1 of
                      None \<Rightarrow> False
                    | Some e' \<Rightarrow> start < e')))
       selectedHorsesArray"

text \<open>
  Line 279: \<^verbatim>\<open>errorHorses.map(h => h.name).join(', ')\<close>. \<^verbatim>\<open>Array.prototype.join\<close> starts
  from the empty string and walks the array from the left: before every element but the
  first it appends the separator, then it appends the element.
\<close>

definition js_join :: "string \<Rightarrow> string list \<Rightarrow> string" where
  "js_join sep xs =
     (case xs of
        [] \<Rightarrow> []
      | x # rest \<Rightarrow> foldl (\<lambda>R element. R @ sep @ element) x rest)"

definition listOfHorses :: "horse list \<Rightarrow> string" where
  "listOfHorses hs = js_join '', '' (map name hs)"

text \<open>
  What the specification asks of the message, in its own words: the names, in order,
  with a comma and a space between any two neighbours.
\<close>

fun comma_separated :: "string list \<Rightarrow> string" where
  "comma_separated [] = []"
| "comma_separated [x] = x"
| "comma_separated (x # y # ys) = x @ '', '' @ comma_separated (y # ys)"

section \<open>The stored event and \<^verbatim>\<open>prisma.event.update\<close>\<close>

text \<open>
  The \<^verbatim>\<open>data\<close> argument of the update at lines 300 to 315. A relation written with
  \<^verbatim>\<open>set\<close> is given as the list of the identifiers it is set to. The end is what
  \<^verbatim>\<open>addMinutes\<close> returns, \<open>None\<close> for an Invalid Date.
\<close>

record event_data =
  ev_title :: string
  ev_start :: date
  ev_end :: "date option"
  ev_instructors :: "string list"
  ev_horses :: "string list"
  ev_cleaningCrewReq :: int
  ev_lessonAssistantsReq :: int
  ev_sideWalkersReq :: int
  ev_horseLeadersReq :: int
  ev_isPrivate :: bool

datatype prisma_error = RecordNotFound

text \<open>
  The update is a call into the ORM. \<^verbatim>\<open>action\<close> below takes it as a parameter: a function
  of the store, the identifier in \<^verbatim>\<open>where\<close> and the data, which throws (\<open>Inl\<close>) or
  returns the updated event, if any, with the new store.

  \<open>prisma_event_update\<close> is the reference store used to run \<^verbatim>\<open>action\<close>: a table of
  events by identifier. A stored event has the columns of \<open>event_data\<close> and whatever
  other columns the table has (the \<open>more\<close> part of the record), which the update leaves
  as they are. Updating an identifier that is not in the table throws. The reference
  store keeps the data it is given and does not validate it.
\<close>

type_synonym 'r event_table = "string \<rightharpoonup> 'r event_data_scheme"

definition prisma_event_update ::
  "'r event_table \<Rightarrow> string \<Rightarrow> event_data \<Rightarrow>
     prisma_error + ('r event_data_scheme option \<times> 'r event_table)" where
  "prisma_event_update db eventId d =
     (case db eventId of
        None \<Rightarrow> Inl RecordNotFound
      | Some row \<Rightarrow>
          (let row' = row
                 \<lparr> ev_title := ev_title d, ev_start := ev_start d, ev_end := ev_end d,
                   ev_instructors := ev_instructors d, ev_horses := ev_horses d,
                   ev_cleaningCrewReq := ev_cleaningCrewReq d,
                   ev_lessonAssistantsReq := ev_lessonAssistantsReq d,
                   ev_sideWalkersReq := ev_sideWalkersReq d,
                   ev_horseLeadersReq := ev_horseLeadersReq d,
                   ev_isPrivate := ev_isPrivate d \<rparr>
           in Inr (Some row', db(eventId \<mapsto> row'))))"

section \<open>The route's \<^verbatim>\<open>action\<close>\<close>

text \<open>
  What the request gives \<^verbatim>\<open>action\<close>: whether \<^verbatim>\<open>requireAdmin(request)\<close> lets it through (the
  function is declared in \<^verbatim>\<open>~/utils/permissions.server.ts\<close> and throws otherwise), the
  route parameter \<^verbatim>\<open>params.eventId\<close>, and \<^verbatim>\<open>submission.value\<close>: the value \<^verbatim>\<open>parse\<close> gives
  for the form data under \<^verbatim>\<open>editEventSchema\<close>, absent when the schema rejects the form.
\<close>

record request =
  requireAdmin :: bool
  params_eventId :: "string option"
  submission_value :: "edit_event option"

text \<open>
  The body of a \<^verbatim>\<open>json\<close> response, which \<^verbatim>\<open>json\<close> sends with the HTTP status 200 unless
  it is given another, and the toast of a redirect. \<^verbatim>\<open>redirectWithToast\<close> is declared in
  \<^verbatim>\<open>~/utils/flash-session.server.ts\<close>; its response is kept as the call: the target and
  the toast.
\<close>

record json_body =
  status :: string
  submission :: "edit_event option"
  message :: "string option"

record toast =
  toast_title :: string
  variant :: "string option"
  description :: string

datatype response =
    Json json_body nat
  | RedirectWithToast string toast

datatype failure =
    NotAdmin
  | InvariantFailed string
  | PrismaError prisma_error

datatype outcome = Returned response | Thrown failure

text \<open>
  Lines 259 to 266: the instructor's identifier, when there is an instructor and the
  identifier is a non-empty string, and the identifiers of the submitted horses, when
  the form has a \<^verbatim>\<open>horses\<close> field.
\<close>

definition instructorData :: "edit_event \<Rightarrow> string list" where
  "instructorData v =
     (case instructor v of
        None \<Rightarrow> []
      | Some i \<Rightarrow> (if instructor_id i = [] then [] else [instructor_id i]))"

definition horseIds :: "edit_event \<Rightarrow> string list option" where
  "horseIds v = map_option (map horse_id) (horses v)"

text \<open>Lines 296 to 329: the update and the redirect that reports it.\<close>

definition update_data :: "edit_event \<Rightarrow> event_data" where
  "update_data v =
     \<lparr> ev_title = title v,
       ev_start = startDate v,
       ev_end = addMinutes (startDate v) (duration v),
       ev_instructors = instructorData v,
       ev_horses = (case horseIds v of None \<Rightarrow> [] | Some ids \<Rightarrow> ids),
       ev_cleaningCrewReq = cleaningCrewReq v,
       ev_lessonAssistantsReq = lessonAssistantsReq v,
       ev_sideWalkersReq = sideWalkersReq v,
       ev_horseLeadersReq = horseLeadersReq v,
       ev_isPrivate = isPrivate v \<rparr>"

definition persist ::
  "('db \<Rightarrow> string \<Rightarrow> event_data \<Rightarrow> prisma_error + ('r event_data_scheme option \<times> 'db)) \<Rightarrow>
     string \<Rightarrow> edit_event \<Rightarrow> 'db \<Rightarrow> outcome \<times> 'db" where
  "persist update eventId v db =
     (case update db eventId (update_data v) of
        Inl err \<Rightarrow> (Thrown (PrismaError err), db)
      | Inr (None, db') \<Rightarrow>
          (Returned (RedirectWithToast ''..''
             \<lparr> toast_title = ''Error'', variant = Some ''destructive'',
               description = ''Failed to update event'' \<rparr>), db')
      | Inr (Some updatedEvent, db') \<Rightarrow>
          (Returned (RedirectWithToast ''..''
             \<lparr> toast_title = ''Success'', variant = None,
               description = ''Updated event '' @ ev_title updatedEvent \<rparr>), db'))"

text \<open>
  \<^verbatim>\<open>action\<close>, lines 235 to 330, with the store passed in and returned, in the time
  zone \<open>tza\<close> of the process. A throw leaves the store as it was. \<^verbatim>\<open>invariant\<close> throws on a falsy identifier: an absent one or the empty
  string. An array is truthy also when it is empty, so the check at line 269 is entered
  whenever the form has a \<^verbatim>\<open>horses\<close> field.
\<close>

definition action ::
  "('db \<Rightarrow> string \<Rightarrow> event_data \<Rightarrow> prisma_error + ('r event_data_scheme option \<times> 'db)) \<Rightarrow>
     zone \<Rightarrow> request \<Rightarrow> 'db \<Rightarrow> outcome \<times> 'db" where
  "action update tza req db =
     (if \<not> requireAdmin req then (Thrown NotAdmin, db)
      else
        (case params_eventId req of
           None \<Rightarrow> (Thrown (InvariantFailed ''Missing event id''), db)
         | Some eventId \<Rightarrow>
             if eventId = [] then (Thrown (InvariantFailed ''Missing event id''), db)
             else
               (case submission_value req of
                  None \<Rightarrow>
                    (Returned
                       (Json \<lparr> status = ''error'', submission = None, message = None \<rparr> 400),
                     db)
                | Some v \<Rightarrow>
                    (case horses v of
                       None \<Rightarrow> persist update eventId v db
                     | Some selectedHorsesArray \<Rightarrow>
                         (let conflicts = errorHorses tza (startDate v) selectedHorsesArray
                          in if length conflicts > 0
                             then
                               (Returned
                                  (Json \<lparr> status = ''horse-error'', submission = Some v,
                                         message = Some (listOfHorses conflicts) \<rparr> 200),
                                db)
                             else persist update eventId v db)))))"

text \<open>
  What a response tells the user about horses in cooldown: the message of a
  \<^verbatim>\<open>horse-error\<close> body (the page shows it in a toast, lines 381 to 386), and nothing for
  any other outcome.
\<close>

definition horse_error_message :: "outcome \<Rightarrow> string option" where
  "horse_error_message out =
     (case out of
        Returned (Json body code) \<Rightarrow>
          (if status body = ''horse-error'' then message body else None)
      | Returned (RedirectWithToast url t) \<Rightarrow> None
      | Thrown f \<Rightarrow> None)"

section \<open>Example data\<close>

text \<open>
  Time values of the instants used below:
  2024-01-10T00:00Z is 1704844800000, 2024-01-11T00:00Z is 1704931200000,
  2024-01-12T00:00Z is 1705017600000,
  2024-01-12T09:00Z is 1705050000000, 2024-01-12T10:00Z is 1705053600000,
  2024-01-12T12:00Z is 1705060800000, 2024-01-13T00:00Z is 1705104000000 and
  2024-01-14T00:00Z is 1705190400000.
\<close>

definition apollo :: horse where
  "apollo = \<lparr> horse_id = ''h1'', name = ''Apollo'',
              cooldownStartDate = Some 1704844800000,
              cooldownEndDate = Some 1705017600000 \<rparr>"

definition biscuit :: horse where
  "biscuit = \<lparr> horse_id = ''h2'', name = ''Biscuit'',
               cooldownStartDate = None,
               cooldownEndDate = Some 1705017600000 \<rparr>"

definition comet :: horse where
  "comet = \<lparr> horse_id = ''h3'', name = ''Comet'',
             cooldownStartDate = Some 1705053600000,
             cooldownEndDate = Some 1705060800000 \<rparr>"

definition dusty :: horse where
  "dusty = \<lparr> horse_id = ''h4'', name = ''Dusty'',
             cooldownStartDate = Some 1704931200000,
             cooldownEndDate = Some 1705017600000 \<rparr>"

text \<open>
  Three horses for the edges. The cooldown of \<open>last_horse\<close> ends at the largest time
  value. The cooldown of \<open>spring_horse\<close> ends on 2024-03-09 at noon in New York
  (17:00Z), the day before the clocks go forward, and the cooldown of \<open>autumn_horse\<close>
  on 2024-11-02 at noon in New York (16:00Z), the day before they go back.
\<close>

definition last_horse :: horse where
  "last_horse = \<lparr> horse_id = ''h5'', name = ''Last'',
                  cooldownStartDate = Some 0,
                  cooldownEndDate = Some 8640000000000000 \<rparr>"

definition spring_horse :: horse where
  "spring_horse = \<lparr> horse_id = ''h6'', name = ''Spring'',
                    cooldownStartDate = Some 1709830800000,
                    cooldownEndDate = Some 1710003600000 \<rparr>"


definition lesson :: edit_event where
  "lesson = \<lparr> title = ''Lesson'', startDate = 1705050000000, duration = 60,
              horses = Some [biscuit, apollo, comet, dusty], instructor = None,
              cleaningCrewReq = 1, lessonAssistantsReq = 2, sideWalkersReq = 0,
              horseLeadersReq = 1, isPrivate = False \<rparr>"

definition stored_lesson :: event_data where
  "stored_lesson = \<lparr> ev_title = ''Old lesson'', ev_start = 1704844800000,
              ev_end = Some 1704846600000, ev_instructors = [''u1''],
              ev_horses = [''h1'', ''h2''], ev_cleaningCrewReq = 0,
              ev_lessonAssistantsReq = 0, ev_sideWalkersReq = 0,
              ev_horseLeadersReq = 0, ev_isPrivate = False \<rparr>"

definition store :: "unit event_table" where
  "store = [''e1'' \<mapsto> stored_lesson]"

definition admin_request :: "edit_event option \<Rightarrow> request" where
  "admin_request v =
     \<lparr> requireAdmin = True, params_eventId = Some ''e1'', submission_value = v \<rparr>"

text \<open>
  Three submissions: \<open>lesson\<close> starts on 2024-01-12 at 09:00, \<open>lesson_later\<close> is the
  same lesson on 2024-01-14 at 00:00, and \<open>lesson_without_horses\<close> is \<open>lesson\<close> with no
  \<^verbatim>\<open>horses\<close> field.
\<close>

definition lesson_later :: edit_event where
  "lesson_later = lesson \<lparr> startDate := 1705190400000 \<rparr>"

definition lesson_without_horses :: edit_event where
  "lesson_without_horses = lesson \<lparr> horses := None \<rparr>"

section \<open>The cooldown check: properties\<close>

text \<open>The date that \<^verbatim>\<open>add\<close> returns for one day is one day after, clipped.\<close>

lemma MakeDate_next_day: "MakeDate (Day t + n) (TimeWithinDay t) = t + n * msPerDay"
proof -
  have "t div msPerDay * msPerDay + t mod msPerDay = t"
    by (rule div_mult_mod_eq)
  then show ?thesis
    by (simp add: MakeDate_def Day_def TimeWithinDay_def distrib_right)
qed

lemma add_days_one: "add_days tza E 1 = TimeClip (one_day_after tza E)"
proof -
  have "addDays tza E 1 = TimeClip (one_day_after tza E)"
    by (simp add: addDays_def Let_def MakeDate_next_day one_day_after_def)
  then show ?thesis
    by (simp add: add_days_def TimeClip_def)
qed

lemma in_errorHorses_iff:
  "h \<in> set (errorHorses tza t hs) \<longleftrightarrow>
     h \<in> set hs \<and>
     (\<exists>s e. cooldownStartDate h = Some s \<and> cooldownEndDate h = Some e \<and>
            s \<le> t \<and> valid_time (one_day_after tza e) \<and> t < one_day_after tza e)"
  by (auto simp: errorHorses_def add_days_one TimeClip_def valid_time_def
      split: option.splits if_splits)


lemma one_day_after_utc_zone: "one_day_after utc_zone E = E + 86400000"
  by (simp add: one_day_after_def UTC_def LocalTime_def utc_zone_def msPerDay_def)

lemma calendar_day_utc_zone: "calendar_day utc_zone t = t div 86400000"
  by (simp add: calendar_day_def LocalTime_def utc_zone_def msPerDay_def)

text \<open>
  In New York the day after noon of 2024-03-09 comes 23 hours later and the day after
  noon of 2024-11-02 comes 25 hours later; in January it comes 24 hours later.
\<close>

lemma one_day_after_new_york_spring:
  "one_day_after new_york_2024 1710003600000 = 1710003600000 + 23 * 60 * 60 * 1000"
  by (simp add: one_day_after_def UTC_def LocalTime_def new_york_2024_def msPerDay_def)


lemma one_day_after_new_york_january:
  "one_day_after new_york_2024 1705017600000 = 1705017600000 + 86400000"
  "one_day_after new_york_2024 1705060800000 = 1705060800000 + 86400000"
  by (simp_all add: one_day_after_def UTC_def LocalTime_def new_york_2024_def msPerDay_def)

text \<open>The calendar days of New York follow one another in time.\<close>

lemma new_york_days_in_order:
  assumes "u1 \<le> u2"
  shows "calendar_day new_york_2024 u1 \<le> calendar_day new_york_2024 u2"
proof (cases "LocalTime new_york_2024 u1 \<le> LocalTime new_york_2024 u2")
  case True
  then show ?thesis
    by (simp add: calendar_day_def msPerDay_def zdiv_mono1)
next
  case False
  with assms have lo: "1730595600000 \<le> LocalTime new_york_2024 u2"
    and hi: "LocalTime new_york_2024 u1 < 1730599200000"
    by (auto simp: LocalTime_def new_york_2024_def split: if_splits)
  from hi have "LocalTime new_york_2024 u1 div 86400000 \<le> 20030"
    by arith
  moreover from lo have "20030 \<le> LocalTime new_york_2024 u2 div 86400000"
    by arith
  ultimately show ?thesis
    by (simp add: calendar_day_def msPerDay_def)
qed

text \<open>
  Where the calendar days follow one another in time and one day after \<open>E\<close> is on the
  next calendar day, every instant of the calendar day of \<open>E\<close> is before it.
\<close>

lemma calendar_day_before_next:
  assumes days_in_order: "\<And>u1 u2. u1 \<le> u2 \<Longrightarrow> calendar_day tza u1 \<le> calendar_day tza u2"
    and next_day: "calendar_day tza (one_day_after tza E) = calendar_day tza E + 1"
    and on_day: "same_calendar_day tza t E"
  shows "t < one_day_after tza E"
proof (rule ccontr)
  assume "\<not> t < one_day_after tza E"
  then have "one_day_after tza E \<le> t"
    by simp
  then have "calendar_day tza (one_day_after tza E) \<le> calendar_day tza t"
    by (rule days_in_order)
  with next_day on_day show False
    by (simp add: same_calendar_day_def)
qed

text \<open>Two zones that agree one day after every cooldown end give the same report.\<close>

lemma errorHorses_zones:
  assumes "\<And>h e. h \<in> set hs \<Longrightarrow> cooldownEndDate h = Some e \<Longrightarrow>
      add_days tza1 e 1 = add_days tza2 e 1"
  shows "errorHorses tza1 t hs = errorHorses tza2 t hs"
  unfolding errorHorses_def
  by (rule filter_cong) (auto simp: assms split: option.splits)

text \<open>The loop of \<^verbatim>\<open>join\<close> builds the string the specification describes.\<close>

lemma comma_separated_append_head:
  "comma_separated ((a @ '', '' @ y) # ys) = a @ '', '' @ comma_separated (y # ys)"
  by (cases ys) simp_all

lemma foldl_comma_separated:
  "foldl (\<lambda>R element. R @ '', '' @ element) x rest = comma_separated (x # rest)"
proof (induction rest arbitrary: x)
  case Nil
  show ?case by simp
next
  case (Cons y ys)
  have "foldl (\<lambda>R element. R @ '', '' @ element) x (y # ys) =
        foldl (\<lambda>R element. R @ '', '' @ element) (x @ '', '' @ y) ys"
    by simp
  also have "\<dots> = comma_separated ((x @ '', '' @ y) # ys)"
    by (rule Cons.IH)
  also have "\<dots> = x @ '', '' @ comma_separated (y # ys)"
    by (rule comma_separated_append_head)
  also have "\<dots> = comma_separated (x # y # ys)"
    by simp
  finally show ?case .
qed

lemma js_join_comma_separated: "js_join '', '' xs = comma_separated xs"
proof (cases xs)
  case Nil
  then show ?thesis by (simp add: js_join_def)
next
  case (Cons x rest)
  then have "js_join '', '' xs = foldl (\<lambda>R element. R @ '', '' @ element) x rest"
    by (simp add: js_join_def)
  also have "\<dots> = comma_separated (x # rest)"
    by (rule foldl_comma_separated)
  finally show ?thesis using Cons by simp
qed

text \<open>The paths through \<^verbatim>\<open>action\<close> once the two guards have let the request through.\<close>

lemma action_rejected:
  assumes "requireAdmin r" and "params_eventId r = Some eid" and "eid \<noteq> []"
    and "submission_value r = None"
  shows "action update tza r db =
           (Returned (Json \<lparr> status = ''error'', submission = None, message = None \<rparr> 400),
            db)"
  using assms by (simp add: action_def)

lemma action_no_horses:
  assumes "requireAdmin r" and "params_eventId r = Some eid" and "eid \<noteq> []"
    and "submission_value r = Some v" and "horses v = None"
  shows "action update tza r db = persist update eid v db"
  using assms by (simp add: action_def)

lemma action_conflict:
  assumes "requireAdmin r" and "params_eventId r = Some eid" and "eid \<noteq> []"
    and "submission_value r = Some v" and "horses v = Some hs"
    and "errorHorses tza (startDate v) hs \<noteq> []"
  shows "action update tza r db =
           (Returned
              (Json \<lparr> status = ''horse-error'', submission = Some v,
                     message = Some (listOfHorses (errorHorses tza (startDate v) hs)) \<rparr> 200),
            db)"
  using assms by (simp add: action_def)

lemma action_no_conflict:
  assumes "requireAdmin r" and "params_eventId r = Some eid" and "eid \<noteq> []"
    and "submission_value r = Some v" and "horses v = Some hs"
    and "errorHorses tza (startDate v) hs = []"
  shows "action update tza r db = persist update eid v db"
  using assms by (simp add: action_def)

lemma horse_error_message_persist:
  "horse_error_message (fst (persist update eid v db)) = None"
  by (simp add: persist_def horse_error_message_def split: sum.splits option.splits prod.splits)

lemma horse_error_message_action:
  "horse_error_message (fst (action update tza r db)) =
     (if requireAdmin r \<and> (\<exists>eid. params_eventId r = Some eid \<and> eid \<noteq> [])
      then
        (case submission_value r of
           None \<Rightarrow> None
         | Some v \<Rightarrow>
             (case horses v of
                None \<Rightarrow> None
              | Some hs \<Rightarrow>
                  if errorHorses tza (startDate v) hs = [] then None
                  else Some (listOfHorses (errorHorses tza (startDate v) hs))))
      else None)"
  by (simp add: action_def horse_error_message_persist split: option.splits)
    (simp add: horse_error_message_def)

text \<open>The update on the reference store, for an event that is in the table.\<close>

lemma persist_reference_store:
  assumes "tbl eid = Some row"
  shows "persist prisma_event_update eid v tbl =
           (Returned (RedirectWithToast ''..''
              \<lparr> toast_title = ''Success'', variant = None,
                description = ''Updated event '' @ title v \<rparr>),
            tbl(eid \<mapsto> row
              \<lparr> ev_title := title v, ev_start := startDate v,
                ev_end := addMinutes (startDate v) (duration v),
                ev_instructors := instructorData v,
                ev_horses := (case horseIds v of None \<Rightarrow> [] | Some ids \<Rightarrow> ids),
                ev_cleaningCrewReq := cleaningCrewReq v,
                ev_lessonAssistantsReq := lessonAssistantsReq v,
                ev_sideWalkersReq := sideWalkersReq v,
                ev_horseLeadersReq := horseLeadersReq v,
                ev_isPrivate := isPrivate v \<rparr>))"
  using assms by (simp add: persist_def prisma_event_update_def update_data_def Let_def)

text \<open>The example selection at the example starts, in UTC.\<close>

lemma errorHorses_lesson:
  "errorHorses utc_zone 1705050000000 [biscuit, apollo, comet, dusty] = [apollo, dusty]"
  by (simp add: errorHorses_def add_days_one one_day_after_utc_zone TimeClip_def maxTime_def
      biscuit_def apollo_def comet_def dusty_def)

lemma errorHorses_lesson_later:
  "errorHorses utc_zone 1705190400000 [biscuit, apollo, comet, dusty] = []"
  by (simp add: errorHorses_def add_days_one one_day_after_utc_zone TimeClip_def maxTime_def
      biscuit_def apollo_def comet_def dusty_def)




text \<open>
  C2. A horse whose cooldown start or cooldown end is absent (or both) is never among
  the horses the check reports, whatever the candidate start, the selection, the zone
  and the value of the other boundary.
\<close>

theorem no_window_never_reported:
  assumes "cooldownStartDate h = None \<or> cooldownEndDate h = None"
  shows "h \<notin> set (errorHorses tza t hs)"
  using assms by (auto simp: in_errorHorses_iff)

theorem no_window_never_reported_witness:
  "cooldownStartDate biscuit = None \<and>
   biscuit \<notin> set (errorHorses utc_zone 1705050000000 [biscuit, apollo, comet])"
proof -
  have h: "cooldownStartDate biscuit = None \<or> cooldownEndDate biscuit = None"
    by (simp add: biscuit_def)
  have "cooldownStartDate biscuit = None"
    by (simp add: biscuit_def)
  with no_window_never_reported [OF h] show ?thesis
    by blast
qed

text \<open>
  C3, as the specification states it, fails. For a window whose start \<open>S\<close> lies inside
  the calendar day of its end \<open>E\<close>, an instant of that day before \<open>S\<close> is on the calendar
  day of \<open>E\<close> and is not reported: the check tests \<open>S \<le> t\<close> first. Comet's window is
  2024-01-12 from 10:00 to 12:00, and a start at 09:00 of that day is not reported. For
  a window that ends at the largest time value, one day after the end is no date, and
  neither a start at \<open>S\<close> nor a start at \<open>E\<close> is reported.
\<close>

theorem window_boundaries_counterexample:
  "cooldownStartDate comet = Some 1705053600000 \<and>
   cooldownEndDate comet = Some 1705060800000 \<and>
   (1705053600000::int) \<le> 1705060800000 \<and>
   same_calendar_day utc_zone 1705050000000 1705060800000 \<and>
   comet \<in> set [comet] \<and>
   comet \<notin> set (errorHorses utc_zone 1705050000000 [comet]) \<and>
   cooldownStartDate last_horse = Some 0 \<and>
   cooldownEndDate last_horse = Some 8640000000000000 \<and>
   (0::int) \<le> 8640000000000000 \<and>
   last_horse \<in> set [last_horse] \<and>
   last_horse \<notin> set (errorHorses utc_zone 0 [last_horse]) \<and>
   last_horse \<notin> set (errorHorses utc_zone 8640000000000000 [last_horse])"
  by (simp add: in_errorHorses_iff one_day_after_utc_zone same_calendar_day_def
      calendar_day_utc_zone valid_time_def maxTime_def comet_def last_horse_def)

text \<open>
  C3, amended. Take a selected horse with the window \<open>[S, E]\<close>, \<open>S \<le> E\<close>, and a server
  zone whose calendar days follow one another in time, such that one day after \<open>E\<close> (the
  same local time of day on the next calendar day) is a date and falls on the calendar
  day after that of \<open>E\<close>. A candidate start equal to \<open>S\<close> is reported; a candidate start
  equal to \<open>E\<close>, or any instant on the calendar day of \<open>E\<close> that is not before \<open>S\<close>, is
  reported; a candidate start one day after \<open>E\<close> is not reported. In particular, for the
  window \<open>[2024-01-10, 2024-01-12]\<close>, where one day after the end is 24 hours after it,
  the start 2024-01-12T09:00 is reported and the start 2024-01-13T00:00 is not.
\<close>

theorem window_boundaries:
  assumes "cooldownStartDate h = Some S" and "cooldownEndDate h = Some E"
    and "S \<le> E" and "h \<in> set hs"
    and representable: "valid_time (one_day_after tza E)"
    and days_in_order: "\<And>u1 u2. u1 \<le> u2 \<Longrightarrow> calendar_day tza u1 \<le> calendar_day tza u2"
    and next_day: "calendar_day tza (one_day_after tza E) = calendar_day tza E + 1"
  shows "h \<in> set (errorHorses tza S hs) \<and>
         h \<in> set (errorHorses tza E hs) \<and>
         (\<forall>t. same_calendar_day tza t E \<and> S \<le> t \<longrightarrow> h \<in> set (errorHorses tza t hs)) \<and>
         h \<notin> set (errorHorses tza (one_day_after tza E) hs) \<and>
         (S = 1704844800000 \<and> E = 1705017600000 \<and> one_day_after tza E = E + msPerDay \<longrightarrow>
            h \<in> set (errorHorses tza 1705050000000 hs) \<and>
            h \<notin> set (errorHorses tza 1705104000000 hs))"
proof -
  have on_day: "t < one_day_after tza E" if "same_calendar_day tza t E" for t
    using days_in_order next_day that by (rule calendar_day_before_next)
  have "same_calendar_day tza E E"
    by (simp add: same_calendar_day_def)
  then have later: "E < one_day_after tza E"
    by (rule on_day)
  have at_start: "h \<in> set (errorHorses tza S hs)"
    using assms(1-4) representable later by (simp add: in_errorHorses_iff)
  have at_end: "h \<in> set (errorHorses tza E hs)"
    using assms(1-4) representable later by (simp add: in_errorHorses_iff)
  have within: "h \<in> set (errorHorses tza t hs)" if "same_calendar_day tza t E \<and> S \<le> t" for t
    using assms(1-4) representable that on_day [of t] by (simp add: in_errorHorses_iff)
  have after: "h \<notin> set (errorHorses tza (one_day_after tza E) hs)"
    using assms(1-4) by (simp add: in_errorHorses_iff)
  have example: "h \<in> set (errorHorses tza 1705050000000 hs) \<and>
      h \<notin> set (errorHorses tza 1705104000000 hs)"
    if ex: "S = 1704844800000 \<and> E = 1705017600000 \<and> one_day_after tza E = E + msPerDay"
  proof -
    from ex have s: "S = 1704844800000" and e: "E = 1705017600000"
      by simp_all
    from ex have "one_day_after tza E = E + msPerDay"
      by blast
    then have d: "one_day_after tza 1705017600000 = 1705104000000"
      unfolding e by (simp add: msPerDay_def)
    from assms(1,2,4) show ?thesis
      by (simp add: in_errorHorses_iff s e d valid_time_def maxTime_def)
  qed
  from at_start at_end within after example show ?thesis
    by blast
qed

theorem window_boundaries_witness:
  "apollo \<in> set (errorHorses utc_zone 1704844800000 [apollo]) \<and>
   apollo \<in> set (errorHorses utc_zone 1705017600000 [apollo]) \<and>
   same_calendar_day utc_zone 1705050000000 1705017600000 \<and>
   apollo \<in> set (errorHorses utc_zone 1705050000000 [apollo]) \<and>
   apollo \<notin> set (errorHorses utc_zone 1705104000000 [apollo]) \<and>
   spring_horse \<in> set (errorHorses new_york_2024 1709830800000 [spring_horse]) \<and>
   spring_horse \<in> set (errorHorses new_york_2024 1710003600000 [spring_horse]) \<and>
   same_calendar_day new_york_2024 1710043200000 1710003600000 \<and>
   spring_horse \<in> set (errorHorses new_york_2024 1710043200000 [spring_horse]) \<and>
   one_day_after new_york_2024 1710003600000 = 1710086400000 \<and>
   spring_horse \<notin> set (errorHorses new_york_2024 1710086400000 [spring_horse])"
proof -
  have a: "cooldownStartDate apollo = Some 1704844800000"
    "cooldownEndDate apollo = Some 1705017600000"
    "(1704844800000::int) \<le> 1705017600000"
    "apollo \<in> set [apollo]"
    by (simp_all add: apollo_def)
  have a_day: "one_day_after utc_zone 1705017600000 = 1705104000000"
    by (simp add: one_day_after_utc_zone)
  have a_valid: "valid_time (one_day_after utc_zone 1705017600000)"
    by (simp add: a_day valid_time_def maxTime_def)
  have a_order: "calendar_day utc_zone u1 \<le> calendar_day utc_zone u2" if "u1 \<le> u2" for u1 u2
    using that by (simp add: calendar_day_utc_zone zdiv_mono1)
  have a_next: "calendar_day utc_zone (one_day_after utc_zone 1705017600000) =
      calendar_day utc_zone 1705017600000 + 1"
    by (simp add: a_day calendar_day_utc_zone)
  have a_on: "same_calendar_day utc_zone 1705050000000 1705017600000"
    by (simp add: same_calendar_day_def calendar_day_utc_zone)
  note wa = window_boundaries [OF a a_valid a_order a_next]
  have a_part: "apollo \<in> set (errorHorses utc_zone 1704844800000 [apollo]) \<and>
      apollo \<in> set (errorHorses utc_zone 1705017600000 [apollo]) \<and>
      apollo \<in> set (errorHorses utc_zone 1705050000000 [apollo]) \<and>
      apollo \<notin> set (errorHorses utc_zone 1705104000000 [apollo])"
    using wa a_on a_day by auto
  have sp: "cooldownStartDate spring_horse = Some 1709830800000"
    "cooldownEndDate spring_horse = Some 1710003600000"
    "(1709830800000::int) \<le> 1710003600000"
    "spring_horse \<in> set [spring_horse]"
    by (simp_all add: spring_horse_def)
  have s_day: "one_day_after new_york_2024 1710003600000 = 1710086400000"
    by (simp add: one_day_after_new_york_spring)
  have s_valid: "valid_time (one_day_after new_york_2024 1710003600000)"
    by (simp add: s_day valid_time_def maxTime_def)
  have s_next: "calendar_day new_york_2024 (one_day_after new_york_2024 1710003600000) =
      calendar_day new_york_2024 1710003600000 + 1"
    by (simp add: s_day calendar_day_def LocalTime_def new_york_2024_def msPerDay_def)
  have s_on: "same_calendar_day new_york_2024 1710043200000 1710003600000"
    by (simp add: same_calendar_day_def calendar_day_def LocalTime_def new_york_2024_def
        msPerDay_def)
  note ws = window_boundaries [OF sp s_valid new_york_days_in_order s_next]
  have s_part: "spring_horse \<in> set (errorHorses new_york_2024 1709830800000 [spring_horse]) \<and>
      spring_horse \<in> set (errorHorses new_york_2024 1710003600000 [spring_horse]) \<and>
      spring_horse \<in> set (errorHorses new_york_2024 1710043200000 [spring_horse]) \<and>
      spring_horse \<notin> set (errorHorses new_york_2024 1710086400000 [spring_horse])"
    using ws s_on s_day by auto
  from a_part a_on s_part s_on s_day show ?thesis
    by blast
qed

text \<open>
  C4. The horses the check reports are a subsequence of the selection: the check drops
  horses and keeps the others in the order of the input.
\<close>

theorem errorHorses_subseq: "subseq (errorHorses tza start hs) hs"
  by (simp add: errorHorses_def)

text \<open>
  C5. For a valid submission with a \<^verbatim>\<open>horses\<close> field: when the check reports at least one
  horse, \<^verbatim>\<open>action\<close> returns the \<^verbatim>\<open>horse-error\<close> body and the store is the one it was
  given, whatever the update function would do to it; when the check reports no horse,
  \<^verbatim>\<open>action\<close> goes on to the update of the event, with the identifiers of the submitted
  horses as its horse associations, and answers with what the update gives.
\<close>

theorem conflicts_abort_update:
  assumes "requireAdmin r" and "params_eventId r = Some eid" and "eid \<noteq> []"
    and "submission_value r = Some v" and "horses v = Some hs"
  shows "(errorHorses tza (startDate v) hs \<noteq> [] \<longrightarrow>
            action update tza r db =
              (Returned
                 (Json \<lparr> status = ''horse-error'', submission = Some v,
                        message = Some (listOfHorses (errorHorses tza (startDate v) hs)) \<rparr>
                    200),
               db)) \<and>
         (errorHorses tza (startDate v) hs = [] \<longrightarrow>
            action update tza r db = persist update eid v db \<and>
            ev_horses (update_data v) = map horse_id hs)"
proof -
  have "ev_horses (update_data v) = map horse_id hs"
    using assms(5) by (simp add: update_data_def horseIds_def)
  with action_conflict [OF assms, where update = update and tza = tza and db = db]
    action_no_conflict [OF assms, where update = update and tza = tza and db = db]
  show ?thesis
    by blast
qed

theorem conflicts_abort_update_witness:
  "action prisma_event_update utc_zone (admin_request (Some lesson)) store =
     (Returned
        (Json \<lparr> status = ''horse-error'', submission = Some lesson,
               message = Some (listOfHorses [apollo, dusty]) \<rparr> 200),
      store) \<and>
   action prisma_event_update utc_zone (admin_request (Some lesson_later)) store =
     (Returned (RedirectWithToast ''..''
        \<lparr> toast_title = ''Success'', variant = None,
          description = ''Updated event Lesson'' \<rparr>),
      [''e1'' \<mapsto>
         \<lparr> ev_title = ''Lesson'', ev_start = 1705190400000, ev_end = Some 1705194000000,
           ev_instructors = [], ev_horses = [''h2'', ''h1'', ''h3'', ''h4''],
           ev_cleaningCrewReq = 1, ev_lessonAssistantsReq = 2, ev_sideWalkersReq = 0,
           ev_horseLeadersReq = 1, ev_isPrivate = False \<rparr>])"
proof -
  have g: "requireAdmin (admin_request (Some lesson))"
    "params_eventId (admin_request (Some lesson)) = Some ''e1''"
    "''e1'' \<noteq> []"
    "submission_value (admin_request (Some lesson)) = Some lesson"
    "horses lesson = Some [biscuit, apollo, comet, dusty]"
    by (simp_all add: admin_request_def lesson_def)
  have g': "requireAdmin (admin_request (Some lesson_later))"
    "params_eventId (admin_request (Some lesson_later)) = Some ''e1''"
    "''e1'' \<noteq> []"
    "submission_value (admin_request (Some lesson_later)) = Some lesson_later"
    "horses lesson_later = Some [biscuit, apollo, comet, dusty]"
    by (simp_all add: admin_request_def lesson_later_def lesson_def)
  have c: "errorHorses utc_zone (startDate lesson) [biscuit, apollo, comet, dusty] = [apollo, dusty]"
    by (simp add: lesson_def errorHorses_lesson)
  have c': "errorHorses utc_zone (startDate lesson_later) [biscuit, apollo, comet, dusty] = []"
    by (simp add: lesson_later_def lesson_def errorHorses_lesson_later)
  have stored: "store ''e1'' = Some stored_lesson"
    by (simp add: store_def)
  have first: "action prisma_event_update utc_zone (admin_request (Some lesson)) store =
     (Returned
        (Json \<lparr> status = ''horse-error'', submission = Some lesson,
               message = Some (listOfHorses [apollo, dusty]) \<rparr> 200),
      store)"
    using conflicts_abort_update
        [OF g, where update = prisma_event_update and tza = utc_zone and db = store] by (simp add: c)
  have "action prisma_event_update utc_zone (admin_request (Some lesson_later)) store =
      persist prisma_event_update ''e1'' lesson_later store"
    using conflicts_abort_update
        [OF g', where update = prisma_event_update and tza = utc_zone and db = store] by (simp add: c')
  also have "\<dots> =
     (Returned (RedirectWithToast ''..''
        \<lparr> toast_title = ''Success'', variant = None,
          description = ''Updated event '' @ title lesson_later \<rparr>),
      store(''e1'' \<mapsto> stored_lesson
        \<lparr> ev_title := title lesson_later, ev_start := startDate lesson_later,
          ev_end := addMinutes (startDate lesson_later) (duration lesson_later),
          ev_instructors := instructorData lesson_later,
          ev_horses := (case horseIds lesson_later of None \<Rightarrow> [] | Some ids \<Rightarrow> ids),
          ev_cleaningCrewReq := cleaningCrewReq lesson_later,
          ev_lessonAssistantsReq := lessonAssistantsReq lesson_later,
          ev_sideWalkersReq := sideWalkersReq lesson_later,
          ev_horseLeadersReq := horseLeadersReq lesson_later,
          ev_isPrivate := isPrivate lesson_later \<rparr>))"
    using stored by (rule persist_reference_store)
  also have "\<dots> =
     (Returned (RedirectWithToast ''..''
        \<lparr> toast_title = ''Success'', variant = None,
          description = ''Updated event Lesson'' \<rparr>),
      [''e1'' \<mapsto>
         \<lparr> ev_title = ''Lesson'', ev_start = 1705190400000, ev_end = Some 1705194000000,
           ev_instructors = [], ev_horses = [''h2'', ''h1'', ''h3'', ''h4''],
           ev_cleaningCrewReq = 1, ev_lessonAssistantsReq = 2, ev_sideWalkersReq = 0,
           ev_horseLeadersReq = 1, ev_isPrivate = False \<rparr>])"
    by (simp add: store_def stored_lesson_def lesson_later_def lesson_def
        addMinutes_def TimeClip_def maxTime_def instructorData_def horseIds_def
        biscuit_def apollo_def comet_def dusty_def)
  finally show ?thesis
    using first by simp
qed



text \<open>
  C7. When the check reports horses, the message of the response is the names of the
  reported horses, in the order of the selection, with a comma and a space between
  neighbours.
\<close>

theorem conflict_message_lists_names:
  assumes "requireAdmin r" and "params_eventId r = Some eid" and "eid \<noteq> []"
    and "submission_value r = Some v" and "horses v = Some hs"
    and "errorHorses tza (startDate v) hs \<noteq> []"
  shows "fst (action update tza r db) =
           Returned
             (Json \<lparr> status = ''horse-error'', submission = Some v,
                    message =
                      Some (comma_separated (map name (errorHorses tza (startDate v) hs))) \<rparr>
                200) \<and>
         subseq (map name (errorHorses tza (startDate v) hs)) (map name hs)"
proof -
  have "listOfHorses (errorHorses tza (startDate v) hs) =
        comma_separated (map name (errorHorses tza (startDate v) hs))"
    by (simp add: listOfHorses_def js_join_comma_separated)
  moreover have "subseq (errorHorses tza (startDate v) hs) hs"
    by (simp add: errorHorses_def)
  then have "subseq (map name (errorHorses tza (startDate v) hs)) (map name hs)"
    by (rule subseq_map)
  ultimately show ?thesis
    using action_conflict [OF assms, where update = update and db = db] by simp
qed

theorem conflict_message_lists_names_witness:
  "fst (action prisma_event_update utc_zone (admin_request (Some lesson)) store) =
     Returned
       (Json \<lparr> status = ''horse-error'', submission = Some lesson,
              message = Some ''Apollo, Dusty'' \<rparr> 200)"
proof -
  have g: "requireAdmin (admin_request (Some lesson))"
    "params_eventId (admin_request (Some lesson)) = Some ''e1''"
    "''e1'' \<noteq> []"
    "submission_value (admin_request (Some lesson)) = Some lesson"
    "horses lesson = Some [biscuit, apollo, comet, dusty]"
    by (simp_all add: admin_request_def lesson_def)
  have start: "startDate lesson = 1705050000000"
    by (simp add: lesson_def)
  have c: "errorHorses utc_zone (startDate lesson) [biscuit, apollo, comet, dusty] \<noteq> []"
    by (simp add: start errorHorses_lesson)
  have names: "comma_separated (map name [apollo, dusty]) = ''Apollo, Dusty''"
    by (simp add: apollo_def dusty_def)
  from conflict_message_lists_names [OF g c, where update = prisma_event_update and db = store]
  have "fst (action prisma_event_update utc_zone (admin_request (Some lesson)) store) =
     Returned
       (Json \<lparr> status = ''horse-error'', submission = Some lesson,
              message = Some (comma_separated (map name [apollo, dusty])) \<rparr> 200)"
    by (simp only: start errorHorses_lesson)
  then show ?thesis
    by (simp only: names)
qed

text \<open>
  C8, as the specification states it, fails. What the check reports depends on the time
  zone of the process, which date-fns reads when it adds the day: for the same start,
  23 hours and a half after the cooldown end of \<open>spring_horse\<close>, and the same selection,
  the check reports the horse in UTC and reports nothing in New York.
\<close>

theorem check_depends_on_zone_counterexample:
  "errorHorses utc_zone 1710088200000 [spring_horse] = [spring_horse] \<and>
   errorHorses new_york_2024 1710088200000 [spring_horse] = []"
  by (simp add: errorHorses_def add_days_one one_day_after_utc_zone
      one_day_after_new_york_spring TimeClip_def maxTime_def spring_horse_def)

text \<open>
  C8, amended. What the check reports is a function of the candidate start, the
  selection and the time zone of the process, and the check writes nothing. Two valid
  submissions with the same start and the same horses, in zones that agree on the date
  one day after the cooldown end of every selected horse (the same zone, for one), get
  the same horses reported and the same horse-error message, whatever the rest of the two
  forms, the two event identifiers, the two stores and the two update functions are. A
  run that reports horses leaves its store as it was, and a run that reports none leaves
  it as the update of the event alone makes it.
\<close>

theorem check_depends_on_start_horses_and_zone:
  assumes "requireAdmin r1" and "params_eventId r1 = Some eid1" and "eid1 \<noteq> []"
    and "submission_value r1 = Some v1"
    and "requireAdmin r2" and "params_eventId r2 = Some eid2" and "eid2 \<noteq> []"
    and "submission_value r2 = Some v2"
    and "startDate v1 = startDate v2" and "horses v1 = horses v2"
    and zones: "\<And>hs h e. horses v1 = Some hs \<Longrightarrow> h \<in> set hs \<Longrightarrow>
      cooldownEndDate h = Some e \<Longrightarrow> add_days tza1 e 1 = add_days tza2 e 1"
  shows "map_option (errorHorses tza1 (startDate v1)) (horses v1) =
           map_option (errorHorses tza2 (startDate v2)) (horses v2) \<and>
         horse_error_message (fst (action update1 tza1 r1 db1)) =
           horse_error_message (fst (action update2 tza2 r2 db2)) \<and>
         snd (action update1 tza1 r1 db1) =
           (if horse_error_message (fst (action update1 tza1 r1 db1)) = None
            then snd (persist update1 eid1 v1 db1) else db1)"
proof -
  have check: "errorHorses tza1 (startDate v1) hs = errorHorses tza2 (startDate v2) hs"
    if "horses v1 = Some hs" for hs
  proof -
    have "errorHorses tza1 (startDate v1) hs = errorHorses tza2 (startDate v1) hs"
      using zones [OF that] by (rule errorHorses_zones)
    with assms(9) show ?thesis
      by simp
  qed
  have reports: "map_option (errorHorses tza1 (startDate v1)) (horses v1) =
      map_option (errorHorses tza2 (startDate v2)) (horses v2)"
  proof (cases "horses v1")
    case None
    with assms(10) show ?thesis
      by simp
  next
    case (Some hs)
    with assms(10) have "horses v2 = Some hs"
      by simp
    with Some check [OF Some] show ?thesis
      by simp
  qed
  have message1: "horse_error_message (fst (action update1 tza1 r1 db1)) =
      (case horses v1 of
         None \<Rightarrow> None
       | Some hs \<Rightarrow>
           if errorHorses tza1 (startDate v1) hs = [] then None
           else Some (listOfHorses (errorHorses tza1 (startDate v1) hs)))"
    using assms(1-4) by (simp add: horse_error_message_action)
  have message2: "horse_error_message (fst (action update2 tza2 r2 db2)) =
      (case horses v2 of
         None \<Rightarrow> None
       | Some hs \<Rightarrow>
           if errorHorses tza2 (startDate v2) hs = [] then None
           else Some (listOfHorses (errorHorses tza2 (startDate v2) hs)))"
    using assms(5-8) by (simp add: horse_error_message_action)
  have same: "horse_error_message (fst (action update1 tza1 r1 db1)) =
      horse_error_message (fst (action update2 tza2 r2 db2))"
  proof (cases "horses v1")
    case None
    with assms(10) message1 message2 show ?thesis
      by simp
  next
    case (Some hs)
    with assms(10) have "horses v2 = Some hs"
      by simp
    with Some message1 message2 check [OF Some] show ?thesis
      by simp
  qed
  have store: "snd (action update1 tza1 r1 db1) =
      (if horse_error_message (fst (action update1 tza1 r1 db1)) = None
       then snd (persist update1 eid1 v1 db1) else db1)"
  proof (cases "horses v1")
    case None
    with assms(1-4) have "action update1 tza1 r1 db1 = persist update1 eid1 v1 db1"
      by (simp add: action_no_horses)
    with None message1 show ?thesis
      by simp
  next
    case (Some hs)
    show ?thesis
    proof (cases "errorHorses tza1 (startDate v1) hs = []")
      case True
      with assms(1-4) Some have "action update1 tza1 r1 db1 = persist update1 eid1 v1 db1"
        by (simp add: action_no_conflict)
      with Some True message1 show ?thesis
        by simp
    next
      case False
      with assms(1-4) Some have "snd (action update1 tza1 r1 db1) = db1"
        by (simp add: action_conflict)
      with Some False message1 show ?thesis
        by simp
    qed
  qed
  from reports same store show ?thesis
    by blast
qed

theorem check_depends_on_start_horses_and_zone_witness:
  "horse_error_message
     (fst (action prisma_event_update utc_zone (admin_request (Some lesson)) store)) =
     Some ''Apollo, Dusty'' \<and>
   horse_error_message
     (fst (action prisma_event_update new_york_2024
        (admin_request (Some (lesson \<lparr> title := ''Other'', duration := 30 \<rparr>)))
        (Map.empty :: unit event_table))) =
     Some ''Apollo, Dusty'' \<and>
   snd (action prisma_event_update utc_zone (admin_request (Some lesson)) store) = store"
proof -
  let ?other = "lesson \<lparr> title := ''Other'', duration := 30 \<rparr>"
  have g: "requireAdmin (admin_request (Some lesson))"
    "params_eventId (admin_request (Some lesson)) = Some ''e1''"
    "''e1'' \<noteq> []"
    "submission_value (admin_request (Some lesson)) = Some lesson"
    by (simp_all add: admin_request_def)
  have g': "requireAdmin (admin_request (Some ?other))"
    "params_eventId (admin_request (Some ?other)) = Some ''e1''"
    "''e1'' \<noteq> []"
    "submission_value (admin_request (Some ?other)) = Some ?other"
    by (simp_all add: admin_request_def)
  have eq: "startDate lesson = startDate ?other" "horses lesson = horses ?other"
    by simp_all
  have selection: "horses lesson = Some [biscuit, apollo, comet, dusty]"
    by (simp add: lesson_def)
  have zones: "add_days utc_zone e 1 = add_days new_york_2024 e 1"
    if "horses lesson = Some hs" and "h \<in> set hs" and "cooldownEndDate h = Some e"
    for hs h e
  proof -
    from that selection have "e = 1705017600000 \<or> e = 1705060800000"
      by (auto simp: biscuit_def apollo_def comet_def dusty_def)
    then show ?thesis
      by (auto simp: add_days_one one_day_after_utc_zone one_day_after_new_york_january)
  qed
  have reported: "horse_error_message
      (fst (action prisma_event_update utc_zone (admin_request (Some lesson)) store)) =
      Some ''Apollo, Dusty''"
  proof -
    have "startDate lesson = 1705050000000"
      by (simp add: lesson_def)
    with selection have "horse_error_message
        (fst (action prisma_event_update utc_zone (admin_request (Some lesson)) store)) =
        Some (listOfHorses [apollo, dusty])"
      by (simp add: horse_error_message_action admin_request_def errorHorses_lesson)
    moreover have "listOfHorses [apollo, dusty] = ''Apollo, Dusty''"
      by (simp add: listOfHorses_def js_join_def apollo_def dusty_def)
    ultimately show ?thesis
      by simp
  qed
  note w = check_depends_on_start_horses_and_zone
    [OF g g' eq zones, where ?update1.0 = prisma_event_update and ?db1.0 = store
      and ?update2.0 = prisma_event_update and ?db2.0 = "Map.empty :: unit event_table"]
  from w reported show ?thesis
    by simp
qed

text \<open>
  C9. When the schema rejects the form (\<^verbatim>\<open>submission.value\<close> is absent), \<^verbatim>\<open>action\<close> answers
  with the body of status \<^verbatim>\<open>error\<close> and the HTTP status 400; the store is the one it was
  given, whatever the update function would do, and the response is not a horse error.
\<close>

theorem invalid_submission_is_rejected:
  assumes "requireAdmin r" and "params_eventId r = Some eid" and "eid \<noteq> []"
    and "submission_value r = None"
  shows "action update tza r db =
           (Returned (Json \<lparr> status = ''error'', submission = None, message = None \<rparr> 400),
            db) \<and>
         horse_error_message (fst (action update tza r db)) = None"
proof -
  have "action update tza r db =
          (Returned (Json \<lparr> status = ''error'', submission = None, message = None \<rparr> 400),
           db)"
    using assms by (rule action_rejected)
  moreover have "horse_error_message (fst (action update tza r db)) = None"
    using assms by (simp add: horse_error_message_action)
  ultimately show ?thesis
    by simp
qed

theorem invalid_submission_is_rejected_witness:
  "action prisma_event_update utc_zone (admin_request None) store =
     (Returned (Json \<lparr> status = ''error'', submission = None, message = None \<rparr> 400),
      store)"
proof -
  have "requireAdmin (admin_request None)"
    and "params_eventId (admin_request None) = Some ''e1''"
    and "''e1'' \<noteq> []"
    and "submission_value (admin_request None) = None"
    by (simp_all add: admin_request_def)
  from invalid_submission_is_rejected [OF this, of prisma_event_update utc_zone store]
  show ?thesis
    by simp
qed

text \<open>
  C10. For a valid submission with no \<^verbatim>\<open>horses\<close> field the check is not run: \<^verbatim>\<open>action\<close>
  goes straight to the update, no horse error is reported, and the update sets the
  horse associations of the event to the empty list, so that on the reference store a
  stored event ends with no horse.
\<close>

theorem no_horses_field_detaches_all:
  assumes "requireAdmin r" and "params_eventId r = Some eid" and "eid \<noteq> []"
    and "submission_value r = Some v" and "horses v = None"
  shows "action update tza r db = persist update eid v db \<and>
         horse_error_message (fst (action update tza r db)) = None \<and>
         ev_horses (update_data v) = [] \<and>
         (\<forall>row. tbl eid = Some row \<longrightarrow>
            map_option ev_horses (snd (action prisma_event_update tza r tbl) eid) = Some [])"
proof -
  have run: "action update tza r db = persist update eid v db"
    using assms by (rule action_no_horses)
  have run_reference: "action prisma_event_update tza r tbl = persist prisma_event_update eid v tbl"
    using assms by (rule action_no_horses)
  have quiet: "horse_error_message (fst (action update tza r db)) = None"
    using assms by (simp add: horse_error_message_action)
  have data: "ev_horses (update_data v) = []"
    using assms(5) by (simp add: update_data_def horseIds_def)
  have detached: "map_option ev_horses (snd (action prisma_event_update tza r tbl) eid) = Some []"
    if "tbl eid = Some row" for row
  proof -
    have "horseIds v = None"
      using assms(5) by (simp add: horseIds_def)
    then show ?thesis
      unfolding run_reference
        persist_reference_store [where tbl = tbl and eid = eid and v = v, OF that]
      by simp
  qed
  from run quiet data detached show ?thesis
    by blast
qed

theorem no_horses_field_detaches_all_witness:
  "map_option ev_horses (store ''e1'') = Some [''h1'', ''h2''] \<and>
   map_option ev_horses
     (snd (action prisma_event_update utc_zone (admin_request (Some lesson_without_horses)) store)
        ''e1'') = Some [] \<and>
   horse_error_message
     (fst (action prisma_event_update utc_zone (admin_request (Some lesson_without_horses)) store)) =
     None"
proof -
  have g: "requireAdmin (admin_request (Some lesson_without_horses))"
    "params_eventId (admin_request (Some lesson_without_horses)) = Some ''e1''"
    "''e1'' \<noteq> []"
    "submission_value (admin_request (Some lesson_without_horses)) =
       Some lesson_without_horses"
    "horses lesson_without_horses = None"
    by (simp_all add: admin_request_def lesson_without_horses_def)
  have stored: "store ''e1'' = Some stored_lesson"
    by (simp add: store_def)
  have before: "map_option ev_horses (store ''e1'') = Some [''h1'', ''h2'']"
    by (simp add: store_def stored_lesson_def)
  note w = no_horses_field_detaches_all
    [OF g, where update = prisma_event_update and tza = utc_zone and db = store and tbl = store]
  from w have quiet: "horse_error_message
      (fst (action prisma_event_update utc_zone (admin_request (Some lesson_without_horses)) store)) =
      None"
    by blast
  from w stored have gone: "map_option ev_horses
      (snd (action prisma_event_update utc_zone (admin_request (Some lesson_without_horses)) store)
         ''e1'') = Some []"
    by blast
  from before gone quiet show ?thesis
    by blast
qed

end
